theory Spec2Isabelle
  imports Complex_Main
begin

section \<open>JavaScript values used by the bot\<close>

text \<open>
  JavaScript numbers that hold integers (ticks, millisecond timestamps, counters) are
  \<open>int\<close> or \<open>nat\<close>; numbers that may be fractional (percentages, seconds of the
  configuration) are exact rationals. Strings are \<open>string\<close>; an optional or nullable
  field is an \<open>option\<close>. A thrown value is either an \<open>Error\<close> with its message or
  something else.
\<close>

datatype thrown = Error string | NonError

text \<open>\<open>error instanceof Error ? error.message : fallback\<close>\<close>

fun message_or :: "string \<Rightarrow> thrown \<Rightarrow> string" where
  "message_or fallback (Error m) = m"
| "message_or fallback NonError = fallback"

text \<open>Truthiness of a \<open>string | null | undefined\<close>: null, undefined and the empty string are falsy.\<close>

fun truthy_str :: "string option \<Rightarrow> bool" where
  "truthy_str None = False"
| "truthy_str (Some s) = (s \<noteq> [])"

text \<open>Truthiness of a \<open>number | null\<close> holding an integer: null and 0 are falsy.\<close>

fun truthy_num :: "int option \<Rightarrow> bool" where
  "truthy_num None = False"
| "truthy_num (Some n) = (n \<noteq> 0)"

text \<open>String concatenation and template literals print an absent string as \<open>undefined\<close>.\<close>

fun str_or_undefined :: "string option \<Rightarrow> string" where
  "str_or_undefined None = ''undefined''"
| "str_or_undefined (Some s) = s"

subsection \<open>Decimal rendering of integers\<close>

definition digit_char :: "nat \<Rightarrow> char" where
  "digit_char d = char_of (48 + d)"

function string_of_nat :: "nat \<Rightarrow> string" where
  "string_of_nat n =
     (if n < 10 then [digit_char n] else string_of_nat (n div 10) @ [digit_char (n mod 10)])"
  by pat_completeness auto
termination
  by (relation "measure (\<lambda>n. n)") auto

declare string_of_nat.simps [simp del]

text \<open>
  \<open>String(n)\<close> of an integer-valued number below \<open>10^21\<close> in magnitude, and
  \<open>BigInt.prototype.toString\<close>: decimal digits, with a leading minus sign when negative.
\<close>

definition string_of_int :: "int \<Rightarrow> string" where
  "string_of_int i =
     (if i < 0 then CHR ''-'' # string_of_nat (nat (- i)) else string_of_nat (nat i))"

subsection \<open>\<open>BigInt(string)\<close>\<close>

text \<open>
  The StringToBigInt grammar on ASCII strings: surrounding white space is dropped, the
  empty text is 0, a decimal literal may carry a sign, and the prefixes \<open>0b\<close>, \<open>0o\<close>,
  \<open>0x\<close> (either case, unsigned) select radix 2, 8, 16. Anything else raises a
  SyntaxError, here \<open>None\<close>.
\<close>

definition isStrWhiteSpaceChar :: "char \<Rightarrow> bool" where
  "isStrWhiteSpaceChar c = (of_char c \<in> {9, 10, 11, 12, 13, 32 :: nat})"

definition trim :: "string \<Rightarrow> string" where
  "trim s = rev (dropWhile isStrWhiteSpaceChar (rev (dropWhile isStrWhiteSpaceChar s)))"

definition digit_value :: "nat \<Rightarrow> char \<Rightarrow> nat option" where
  "digit_value radix c =
     (let n = (of_char c :: nat);
          v = (if 48 \<le> n \<and> n \<le> 57 then Some (n - 48)
               else if 97 \<le> n \<and> n \<le> 102 then Some (n - 87)
               else if 65 \<le> n \<and> n \<le> 70 then Some (n - 55)
               else None)
      in case v of None \<Rightarrow> None | Some d \<Rightarrow> if d < radix then Some d else None)"

fun parse_digits_acc :: "nat \<Rightarrow> nat \<Rightarrow> string \<Rightarrow> nat option" where
  "parse_digits_acc radix acc [] = Some acc"
| "parse_digits_acc radix acc (c # cs) =
     (case digit_value radix c of
        None \<Rightarrow> None
      | Some d \<Rightarrow> parse_digits_acc radix (acc * radix + d) cs)"

definition parse_digits :: "nat \<Rightarrow> string \<Rightarrow> nat option" where
  "parse_digits radix s = (if s = [] then None else parse_digits_acc radix 0 s)"

definition BigInt :: "string \<Rightarrow> int option" where
  "BigInt s =
     (let t = trim s in
      if t = [] then Some 0
      else if hd t = CHR ''+'' then map_option int (parse_digits 10 (tl t))
      else if hd t = CHR ''-'' then map_option (\<lambda>n. - int n) (parse_digits 10 (tl t))
      else if hd t = CHR ''0'' \<and> tl t \<noteq> [] \<and> hd (tl t) \<in> {CHR ''b'', CHR ''B''}
        then map_option int (parse_digits 2 (tl (tl t)))
      else if hd t = CHR ''0'' \<and> tl t \<noteq> [] \<and> hd (tl t) \<in> {CHR ''o'', CHR ''O''}
        then map_option int (parse_digits 8 (tl (tl t)))
      else if hd t = CHR ''0'' \<and> tl t \<noteq> [] \<and> hd (tl t) \<in> {CHR ''x'', CHR ''X''}
        then map_option int (parse_digits 16 (tl (tl t)))
      else map_option int (parse_digits 10 t))"

text \<open>
  \<open>(BigInt(totalGasSpent) + BigInt(gasCost)).toString()\<close>; the SyntaxError carries the text
  that failed to convert.
\<close>

definition add_gas :: "string \<Rightarrow> string \<Rightarrow> thrown + string" where
  "add_gas spent gas =
     (case BigInt spent of
        None \<Rightarrow> Inl (Error (''Cannot convert '' @ spent @ '' to a BigInt''))
      | Some a \<Rightarrow>
          (case BigInt gas of
             None \<Rightarrow> Inl (Error (''Cannot convert '' @ gas @ '' to a BigInt''))
           | Some g \<Rightarrow> Inr (string_of_int (a + g))))"

section \<open>Data model (types/index.ts)\<close>

record LiquidityPosition =
  position_id :: string
  poolId :: string
  coinTypeA :: string
  coinTypeB :: string
  amountA :: string
  amountB :: string
  tickLower :: int
  tickUpper :: int
  currentTick :: int
  currentPrice :: string
  sqrtPrice :: string
  liquidity :: string
  feeGrowthGlobalA :: string
  feeGrowthGlobalB :: string
  tokenDecimalsA :: int
  tokenDecimalsB :: int
  symbolA :: string
  symbolB :: string

text \<open>The fields of \<open>PoolInfo\<close> share names with those of a position; here they carry the prefix \<open>pool_\<close>.\<close>

record PoolInfo =
  pool_id :: string
  pool_coinTypeA :: string
  pool_coinTypeB :: string
  pool_tickSpacing :: int
  pool_feeRate :: int
  pool_currentTick :: int
  pool_currentPrice :: string
  pool_sqrtPrice :: string
  pool_liquidity :: string
  pool_tokenDecimalsA :: int
  pool_tokenDecimalsB :: int
  pool_symbolA :: string
  pool_symbolB :: string

record RebalanceConfig =
  slippageTolerance :: rat
  rangeWidthPercent :: rat
  minRebalanceInterval :: rat
  gasBudget :: rat
  autoRebalance :: bool

text \<open>\<open>Partial<RebalanceConfig>\<close>: \<open>None\<close> is a field that the update does not carry.\<close>

record PartialRebalanceConfig =
  slippageTolerance_opt :: "rat option"
  rangeWidthPercent_opt :: "rat option"
  minRebalanceInterval_opt :: "rat option"
  gasBudget_opt :: "rat option"
  autoRebalance_opt :: "bool option"

record BotState =
  isRunning :: bool
  lastRebalanceTime :: "int option"
  rebalanceCount :: nat
  totalGasSpent :: string
  errors :: "string list"

record RebalanceResult =
  success :: bool
  txHash :: "string option"
  gasCost :: "string option"
  newPositionId :: "string option"
  newTickLower :: "int option"
  newTickUpper :: "int option"
  error :: "string option"

section \<open>The bot (services/botService.ts)\<close>

text \<open>
  The collaborator the bot awaits: what \<open>getPosition\<close> and \<open>rebalancePosition\<close> of the
  injected service resolve to (\<open>Inr\<close>) or reject with (\<open>Inl\<close>) during one operation.
\<close>

record CetusCalls =
  getPosition :: "string \<Rightarrow> thrown + LiquidityPosition option"
  rebalancePosition :: "string \<Rightarrow> RebalanceConfig \<Rightarrow> thrown + RebalanceResult"

text \<open>
  The private fields of \<open>BotService\<close>. A registered callback is the list of arguments it
  has been called with so far, in order; \<open>None\<close> is the null callback. Callbacks are
  taken not to throw. \<open>monitoringInterval\<close> holds the period of the active timer.
  Console output is not part of the object and is left out.
\<close>

record BotService =
  config :: RebalanceConfig
  state :: BotState
  monitoringInterval :: "int option"
  positionId :: "string option"
  onStatusUpdate :: "string list option"
  onRebalance :: "RebalanceResult list option"

definition BotService_new ::
  "RebalanceConfig \<Rightarrow> bool \<Rightarrow> bool \<Rightarrow> BotService" where
  "BotService_new cfg withStatus withRebalance =
     \<lparr> config = cfg,
       state = \<lparr> isRunning = False, lastRebalanceTime = None, rebalanceCount = 0,
                 totalGasSpent = ''0'', errors = [] \<rparr>,
       monitoringInterval = None,
       positionId = None,
       onStatusUpdate = (if withStatus then Some [] else None),
       onRebalance = (if withRebalance then Some [] else None) \<rparr>"

subsection \<open>Logging helpers\<close>

text \<open>
  \<open>ts\<close> is \<open>new Date().toISOString()\<close> at the time of the call; the log lines of one
  operation are given the same text.
\<close>

definition logStatus :: "string \<Rightarrow> string \<Rightarrow> BotService \<Rightarrow> BotService" where
  "logStatus ts message b =
     (let logMessage = ''['' @ ts @ ''] '' @ message
      in b\<lparr> onStatusUpdate := map_option (\<lambda>seen. seen @ [logMessage]) (onStatusUpdate b) \<rparr>)"

definition logError :: "string \<Rightarrow> string \<Rightarrow> BotService \<Rightarrow> BotService" where
  "logError ts message b =
     (let logMessage = ''['' @ ts @ ''] ERROR: '' @ message;
          pushed = errors (state b) @ [logMessage];
          kept = (if length pushed > 100 then tl pushed else pushed)
      in b\<lparr> state := (state b)\<lparr> errors := kept \<rparr>,
             onStatusUpdate := map_option (\<lambda>seen. seen @ [logMessage]) (onStatusUpdate b) \<rparr>)"

subsection \<open>Range membership and the interval gate\<close>

text \<open>\<open>CetusService.isPriceOutOfRange\<close>\<close>

definition isPriceOutOfRange :: "LiquidityPosition \<Rightarrow> bool" where
  "isPriceOutOfRange position =
     (currentTick position < tickLower position \<or> currentTick position > tickUpper position)"

text \<open>\<open>now\<close> is the value of \<open>Date.now()\<close>, in milliseconds.\<close>

definition canRebalance :: "int \<Rightarrow> BotService \<Rightarrow> bool" where
  "canRebalance now b =
     (if \<not> truthy_num (lastRebalanceTime (state b)) then True
      else let timeSinceLastRebalance = now - the (lastRebalanceTime (state b))
           in of_int timeSinceLastRebalance \<ge> minRebalanceInterval (config b) * 1000)"

subsection \<open>Executing a rebalance\<close>

text \<open>
  The three statements that \<open>executeRebalance\<close> and \<open>triggerRebalance\<close> both run on a
  successful result: stamp the time, count, and add the gas when \<open>gasCost\<close> is truthy.
  \<open>BigInt\<close> may throw after the first two assignments are done; the state reached and
  the thrown value are both returned.
\<close>

definition tally_success :: "int \<Rightarrow> RebalanceResult \<Rightarrow> BotService \<Rightarrow> BotService \<times> thrown option" where
  "tally_success now result b =
     (let st1 = (state b)\<lparr> lastRebalanceTime := Some now,
                            rebalanceCount := rebalanceCount (state b) + 1 \<rparr>
      in if truthy_str (gasCost result)
         then (case add_gas (totalGasSpent st1) (the (gasCost result)) of
                 Inl e \<Rightarrow> (b\<lparr> state := st1 \<rparr>, Some e)
               | Inr spent \<Rightarrow> (b\<lparr> state := st1\<lparr> totalGasSpent := spent \<rparr> \<rparr>, None))
         else (b\<lparr> state := st1 \<rparr>, None))"

text \<open>\<open>if (this.onRebalance) this.onRebalance(result)\<close>\<close>

definition notify_rebalance :: "RebalanceResult \<Rightarrow> BotService \<Rightarrow> BotService" where
  "notify_rebalance result b =
     b\<lparr> onRebalance := map_option (\<lambda>seen. seen @ [result]) (onRebalance b) \<rparr>"

definition executeRebalance :: "CetusCalls \<Rightarrow> string \<Rightarrow> int \<Rightarrow> BotService \<Rightarrow> BotService" where
  "executeRebalance svc ts now b =
     (if \<not> truthy_str (positionId b) then b
      else
        let b1 = logStatus ts ''Executing rebalance...'' b in
        case rebalancePosition svc (the (positionId b1)) (config b1) of
          Inl e \<Rightarrow> logError ts (''Error during rebalance: '' @ message_or ''Unknown error'' e) b1
        | Inr result \<Rightarrow>
            if success result then
              (case tally_success now result b1 of
                 (b2, Some e) \<Rightarrow>
                   logError ts (''Error during rebalance: '' @ message_or ''Unknown error'' e) b2
               | (b2, None) \<Rightarrow>
                   let b3 = logStatus ts (''Rebalance successful! Tx: '' @ str_or_undefined (txHash result)) b2;
                       b4 = (if truthy_str (newPositionId result)
                             then b3\<lparr> positionId := newPositionId result \<rparr> else b3)
                   in notify_rebalance result b4)
            else
              notify_rebalance result
                (logError ts (''Rebalance failed: '' @ str_or_undefined (error result)) b1))"

definition failure :: "string \<Rightarrow> RebalanceResult" where
  "failure msg =
     \<lparr> success = False, txHash = None, gasCost = None, newPositionId = None,
       newTickLower = None, newTickUpper = None, error = Some msg \<rparr>"

text \<open>The promise of \<open>triggerRebalance\<close> resolves to a result (\<open>Inr\<close>) or rejects (\<open>Inl\<close>).\<close>

definition triggerRebalance ::
  "CetusCalls \<Rightarrow> string \<Rightarrow> int \<Rightarrow> BotService \<Rightarrow> BotService \<times> (thrown + RebalanceResult)" where
  "triggerRebalance svc ts now b =
     (if \<not> truthy_str (positionId b) then (b, Inr (failure ''No position being monitored''))
      else
        let b1 = logStatus ts ''Manual rebalance triggered'' b in
        case rebalancePosition svc (the (positionId b1)) (config b1) of
          Inl e \<Rightarrow> (b1, Inl e)
        | Inr result \<Rightarrow>
            if success result then
              (case tally_success now result b1 of
                 (b2, Some e) \<Rightarrow> (b2, Inl e)
               | (b2, None) \<Rightarrow> (notify_rebalance result b2, Inr result))
            else (notify_rebalance result b1, Inr result))"

subsection \<open>One monitoring cycle\<close>

definition tick_and_range :: "LiquidityPosition \<Rightarrow> string" where
  "tick_and_range position =
     string_of_int (currentTick position) @ '', Range: ['' @ string_of_int (tickLower position)
       @ '', '' @ string_of_int (tickUpper position) @ '']''"

text \<open>
  \<open>now\<close> is the clock read by \<open>canRebalance\<close>, \<open>now'\<close> the clock read after the awaited
  rebalance has resolved.
\<close>

definition checkAndRebalance ::
  "CetusCalls \<Rightarrow> string \<Rightarrow> int \<Rightarrow> int \<Rightarrow> BotService \<Rightarrow> BotService" where
  "checkAndRebalance svc ts now now' b =
     (if \<not> truthy_str (positionId b) then logError ts ''No position ID set'' b
      else
        case getPosition svc (the (positionId b)) of
          Inl e \<Rightarrow> logError ts (''Error during check: '' @ message_or ''Unknown error'' e) b
        | Inr None \<Rightarrow> logError ts (''Position not found: '' @ the (positionId b)) b
        | Inr (Some position) \<Rightarrow>
            if isPriceOutOfRange position then
              let b1 = logStatus ts (''Price out of range! Current tick: '' @ tick_and_range position) b in
              if canRebalance now b1 then executeRebalance svc ts now' b1
              else logStatus ts ''Waiting for minimum rebalance interval...'' b1
            else logStatus ts (''Price in range. Current tick: '' @ tick_and_range position) b)"

subsection \<open>Lifecycle and accessors\<close>

definition startMonitoring ::
  "CetusCalls \<Rightarrow> string \<Rightarrow> int \<Rightarrow> int \<Rightarrow> string \<Rightarrow> int \<Rightarrow> BotService \<Rightarrow> thrown + BotService" where
  "startMonitoring svc ts now now' pid checkIntervalMs b =
     (if isRunning (state b) then Inl (Error ''Bot is already running'')
      else
        let b1 = b\<lparr> positionId := Some pid, state := (state b)\<lparr> isRunning := True \<rparr> \<rparr>;
            b2 = logStatus ts (''Bot started monitoring position: '' @ pid) b1;
            b3 = checkAndRebalance svc ts now now' b2
        in Inr (b3\<lparr> monitoringInterval := Some checkIntervalMs \<rparr>))"

definition stopMonitoring :: "string \<Rightarrow> BotService \<Rightarrow> BotService" where
  "stopMonitoring ts b =
     (let b1 = (if monitoringInterval b \<noteq> None then b\<lparr> monitoringInterval := None \<rparr> else b);
          b2 = b1\<lparr> state := (state b1)\<lparr> isRunning := False \<rparr> \<rparr>
      in logStatus ts ''Bot stopped monitoring'' b2)"

definition getState :: "BotService \<Rightarrow> BotState" where
  "getState b = state b"

definition getConfig :: "BotService \<Rightarrow> RebalanceConfig" where
  "getConfig b = config b"

definition getPositionId :: "BotService \<Rightarrow> string option" where
  "getPositionId b = positionId b"

text \<open>\<open>{ ...this.config, ...newConfig }\<close>: every field the update carries replaces the old one.\<close>

definition spread :: "RebalanceConfig \<Rightarrow> PartialRebalanceConfig \<Rightarrow> RebalanceConfig" where
  "spread c u =
     \<lparr> slippageTolerance = (case slippageTolerance_opt u of None \<Rightarrow> slippageTolerance c | Some v \<Rightarrow> v),
       rangeWidthPercent = (case rangeWidthPercent_opt u of None \<Rightarrow> rangeWidthPercent c | Some v \<Rightarrow> v),
       minRebalanceInterval = (case minRebalanceInterval_opt u of None \<Rightarrow> minRebalanceInterval c | Some v \<Rightarrow> v),
       gasBudget = (case gasBudget_opt u of None \<Rightarrow> gasBudget c | Some v \<Rightarrow> v),
       autoRebalance = (case autoRebalance_opt u of None \<Rightarrow> autoRebalance c | Some v \<Rightarrow> v) \<rparr>"

definition updateConfig :: "string \<Rightarrow> PartialRebalanceConfig \<Rightarrow> BotService \<Rightarrow> BotService" where
  "updateConfig ts newConfig b =
     logStatus ts ''Configuration updated'' (b\<lparr> config := spread (config b) newConfig \<rparr>)"

record RebalanceCheck =
  needed :: bool
  reason :: "string option"

text \<open>
  \<open>now\<close> is the clock read by \<open>canRebalance\<close>, \<open>now'\<close> the clock read when the wait is
  computed. The method assigns to no field; the bot is returned as it was received.
\<close>

definition checkRebalanceNeeded ::
  "CetusCalls \<Rightarrow> int \<Rightarrow> int \<Rightarrow> BotService \<Rightarrow> BotService \<times> (thrown + RebalanceCheck)" where
  "checkRebalanceNeeded svc now now' b =
     (if \<not> truthy_str (positionId b)
      then (b, Inr \<lparr> needed = False, reason = Some ''No position being monitored'' \<rparr>)
      else
        case getPosition svc (the (positionId b)) of
          Inl e \<Rightarrow> (b, Inl e)
        | Inr None \<Rightarrow> (b, Inr \<lparr> needed = False, reason = Some ''Position not found'' \<rparr>)
        | Inr (Some position) \<Rightarrow>
            if \<not> isPriceOutOfRange position
            then (b, Inr \<lparr> needed = False,
                           reason = Some (''Price in range. Current: '' @ tick_and_range position) \<rparr>)
            else if \<not> canRebalance now b
            then
              let last = (if truthy_num (lastRebalanceTime (state b))
                          then the (lastRebalanceTime (state b)) else 0);
                  waitTime = \<lceil>(minRebalanceInterval (config b) * 1000 - of_int (now' - last)) / 1000\<rceil>
              in (b, Inr \<lparr> needed = False,
                            reason = Some (''Waiting '' @ string_of_int waitTime
                                           @ ''s for min rebalance interval'') \<rparr>)
            else (b, Inr \<lparr> needed = True,
                           reason = Some (''Price out of range! Current: '' @ tick_and_range position) \<rparr>))"

subsection \<open>Sequences of operations\<close>

datatype op =
    Start CetusCalls string int int string int
  | Stop string
  | Cycle CetusCalls string int int
  | Trigger CetusCalls string int
  | Update string PartialRebalanceConfig
  | Check CetusCalls int int

fun apply_op :: "BotService \<Rightarrow> op \<Rightarrow> BotService" where
  "apply_op b (Start svc ts now now' pid ms) =
     (case startMonitoring svc ts now now' pid ms b of Inl e \<Rightarrow> b | Inr b' \<Rightarrow> b')"
| "apply_op b (Stop ts) = stopMonitoring ts b"
| "apply_op b (Cycle svc ts now now') = checkAndRebalance svc ts now now' b"
| "apply_op b (Trigger svc ts now) = fst (triggerRebalance svc ts now b)"
| "apply_op b (Update ts u) = updateConfig ts u b"
| "apply_op b (Check svc now now') = fst (checkRebalanceNeeded svc now now' b)"

definition run :: "BotService \<Rightarrow> op list \<Rightarrow> BotService" where
  "run b ops = foldl apply_op b ops"

section \<open>Concentrated-liquidity math and execution (services/cetusService.ts)\<close>

subsection \<open>New tick range\<close>

text \<open>
  \<open>Math.log\<close> is the natural logarithm over the reals and \<open>Math.round\<close> rounds to the
  nearest integer, halves upwards, as \<open>round\<close> does. The ticks and the spacing are
  integers; the width is a rational (every finite double is one), with
  \<open>rangeWidthPercent > -100\<close> and \<open>tickSpacing \<noteq> 0\<close> as the domain on which
  the source's arithmetic stays finite.
\<close>

text \<open>The local \<open>tickRange\<close>: \<open>Math.round(Math.log(priceRatio) / Math.log(1.0001))\<close>.\<close>

definition tickRange :: "rat \<Rightarrow> int" where
  "tickRange rangeWidthPercent' =
     (let priceRatio = 1 + (real_of_rat rangeWidthPercent' / 100)
      in round (ln priceRatio / ln (10001 / 10000)))"

text \<open>The local \<open>halfRange\<close>: \<open>Math.round(tickRange / 2)\<close>.\<close>

definition halfRange :: "rat \<Rightarrow> int" where
  "halfRange rangeWidthPercent' = round (real_of_int (tickRange rangeWidthPercent') / 2)"

definition calculateNewTickRange :: "int \<Rightarrow> int \<Rightarrow> rat \<Rightarrow> int \<times> int" where
  "calculateNewTickRange currentTick' tickSpacing rangeWidthPercent' =
     (let tickLower' = \<lfloor>real_of_int (currentTick' - halfRange rangeWidthPercent')
                          / real_of_int tickSpacing\<rfloor> * tickSpacing;
          tickUpper' = \<lceil>real_of_int (currentTick' + halfRange rangeWidthPercent')
                          / real_of_int tickSpacing\<rceil> * tickSpacing
      in (tickLower', tickUpper'))"

subsection \<open>bignumber.js values\<close>

text \<open>
  \<open>BN\<close> is bignumber.js, arbitrary-precision decimals, under its default configuration
  (nothing in the repository sets another): \<open>DECIMAL_PLACES = 20\<close> and
  \<open>ROUNDING_MODE = ROUND_HALF_UP\<close>, nearest with ties away from zero. A finite value is
  a rational; \<open>plus\<close>, \<open>minus\<close>, \<open>times\<close> are exact; \<open>div\<close> rounds the quotient to 20
  decimal places; a zero divisor gives \<open>Infinity\<close> or \<open>NaN\<close>, here \<open>NotFinite\<close>.
\<close>

datatype bn = Finite rat | NotFinite

definition round_half_up :: "nat \<Rightarrow> rat \<Rightarrow> rat" where
  "round_half_up dp x =
     (if x < 0 then - (of_int \<lfloor>(- x) * 10 ^ dp + 1 / 2\<rfloor> / 10 ^ dp)
      else of_int \<lfloor>x * 10 ^ dp + 1 / 2\<rfloor> / 10 ^ dp)"

definition bn_div :: "rat \<Rightarrow> rat \<Rightarrow> bn" where
  "bn_div x y = (if y = 0 then NotFinite else Finite (round_half_up 20 (x / y)))"


subsection \<open>Token amounts from liquidity\<close>

definition calculateTokenAmounts :: "rat \<Rightarrow> rat \<Rightarrow> rat \<Rightarrow> rat \<Rightarrow> bn \<times> bn" where
  "calculateTokenAmounts liquidity' sqrtPriceCurrent sqrtPriceLower sqrtPriceUpper =
     (if sqrtPriceCurrent < sqrtPriceLower then
        (bn_div (liquidity' * (sqrtPriceUpper - sqrtPriceLower)) (sqrtPriceUpper * sqrtPriceLower),
         Finite 0)
      else if sqrtPriceCurrent > sqrtPriceUpper then
        (Finite 0, Finite (liquidity' * (sqrtPriceUpper - sqrtPriceLower)))
      else
        (bn_div (liquidity' * (sqrtPriceUpper - sqrtPriceCurrent)) (sqrtPriceUpper * sqrtPriceCurrent),
         Finite (liquidity' * (sqrtPriceCurrent - sqrtPriceLower))))"

subsection \<open>Minimum amounts with slippage\<close>



subsection \<open>Rebalancing a position\<close>

text \<open>
  What the service sees of the chain during one call: the wallet address, what its own
  \<open>getPosition\<close> and \<open>getPoolInfo\<close> resolve to (both catch every error and return null),
  whether setting the gas budget and building the two transaction steps throws, and
  what submitting and awaiting the transaction give.
\<close>

record TxResponse =
  digest :: string
  computationCost :: "string option"

record CetusService =
  senderAddress :: "string option"
  fetchPosition :: "string \<Rightarrow> LiquidityPosition option"
  fetchPoolInfo :: "string \<Rightarrow> PoolInfo option"
  buildTx :: "thrown option"
  signAndExecuteTransaction :: "thrown + TxResponse"
  waitForTransaction :: "thrown option"

text \<open>\<open>getSigner\<close> is a placeholder that throws.\<close>

definition getSigner :: "thrown + unit" where
  "getSigner = Inl (Error ''Wallet signer not implemented'')"

definition caught :: "thrown \<Rightarrow> RebalanceResult" where
  "caught e = failure (message_or ''Unknown error during rebalance'' e)"

definition rebalancePosition_impl :: "CetusService \<Rightarrow> string \<Rightarrow> RebalanceConfig \<Rightarrow> RebalanceResult" where
  "rebalancePosition_impl cs pid cfg =
     (if \<not> truthy_str (senderAddress cs) then failure ''Wallet not connected''
      else
        (case fetchPosition cs pid of
           None \<Rightarrow> failure ''Position not found''
         | Some position \<Rightarrow>
             (if \<not> isPriceOutOfRange position then failure ''Price is still within range''
              else
                (case fetchPoolInfo cs (poolId position) of
                   None \<Rightarrow> failure ''Pool not found''
                 | Some poolInfo \<Rightarrow>
                     (let (tickLower', tickUpper') =
                            calculateNewTickRange (pool_currentTick poolInfo)
                              (pool_tickSpacing poolInfo) (rangeWidthPercent cfg)
                      in (case buildTx cs of
                            Some e \<Rightarrow> caught e
                          | None \<Rightarrow>
                              (case getSigner of
                                 Inl e \<Rightarrow> caught e
                               | Inr signer \<Rightarrow>
                                   (case signAndExecuteTransaction cs of
                                      Inl e \<Rightarrow> caught e
                                    | Inr result \<Rightarrow>
                                        (case waitForTransaction cs of
                                           Some e \<Rightarrow> caught e
                                         | None \<Rightarrow>
                                             \<lparr> success = True,
                                               txHash = Some (digest result),
                                               gasCost = Some (if truthy_str (computationCost result)
                                                               then the (computationCost result)
                                                               else ''0''),
                                               newPositionId = None,
                                               newTickLower = Some tickLower',
                                               newTickUpper = Some tickUpper',
                                               error = None \<rparr>)))))))))"


section \<open>Concrete inputs\<close>

text \<open>The dashboard's default configuration.\<close>

definition default_config :: RebalanceConfig where
  "default_config =
     \<lparr> slippageTolerance = 1 / 2, rangeWidthPercent = 10, minRebalanceInterval = 300,
       gasBudget = 100000000, autoRebalance = True \<rparr>"

text \<open>A position whose current tick 2500 is above its range [1000, 2000].\<close>

definition position_out :: LiquidityPosition where
  "position_out =
     \<lparr> position_id = ''pos-1'', poolId = ''pool-1'', coinTypeA = ''A'', coinTypeB = ''B'',
       amountA = ''0'', amountB = ''1000'', tickLower = 1000, tickUpper = 2000,
       currentTick = 2500, currentPrice = ''1.28'', sqrtPrice = ''20900000000000000000'',
       liquidity = ''5000'', feeGrowthGlobalA = ''0'', feeGrowthGlobalB = ''0'',
       tokenDecimalsA = 9, tokenDecimalsB = 9, symbolA = ''TOKEN_A'', symbolB = ''TOKEN_B'' \<rparr>"


text \<open>A bot that monitors \<open>pos-1\<close> with both callbacks registered.\<close>

definition bot_monitoring :: BotService where
  "bot_monitoring =
     (BotService_new default_config True True)
       \<lparr> positionId := Some ''pos-1'', monitoringInterval := Some 30000,
         state := \<lparr> isRunning = True, lastRebalanceTime = None, rebalanceCount = 0,
                    totalGasSpent = ''0'', errors = [] \<rparr> \<rparr>"

text \<open>A successful result that carries a new position id.\<close>

definition result_new_id :: RebalanceResult where
  "result_new_id =
     \<lparr> success = True, txHash = Some ''0xabc'', gasCost = Some ''100'',
       newPositionId = Some ''pos-2'', newTickLower = Some 1980, newTickUpper = Some 3000,
       error = None \<rparr>"

definition svc_new_id :: CetusCalls where
  "svc_new_id =
     \<lparr> getPosition = (\<lambda>pid. Inr (Some position_out)),
       rebalancePosition = (\<lambda>pid cfg. Inr result_new_id) \<rparr>"


text \<open>The same bot with a full error log.\<close>

definition bot_full_log :: BotService where
  "bot_full_log = bot_monitoring\<lparr> state := (state bot_monitoring)\<lparr> errors := replicate 100 ''old'' \<rparr> \<rparr>"

text \<open>An update that carries a negative slippage tolerance and nothing else.\<close>

definition update_negative_slippage :: PartialRebalanceConfig where
  "update_negative_slippage =
     \<lparr> slippageTolerance_opt = Some (- 5), rangeWidthPercent_opt = None,
       minRebalanceInterval_opt = None, gasBudget_opt = None, autoRebalance_opt = None \<rparr>"


text \<open>The clock values an operation stores as \<open>lastRebalanceTime\<close> are not the epoch itself.\<close>

fun clock_nonzero :: "op \<Rightarrow> bool" where
  "clock_nonzero (Start svc ts now now' pid ms) = (now' \<noteq> 0)"
| "clock_nonzero (Cycle svc ts now now') = (now' \<noteq> 0)"
| "clock_nonzero (Trigger svc ts now) = (now \<noteq> 0)"
| "clock_nonzero (Stop ts) = True"
| "clock_nonzero (Update ts u) = True"
| "clock_nonzero (Check svc now now') = True"

section \<open>Frame lemmas of the helpers\<close>

lemma logStatus_frame [simp]:
  "state (logStatus ts m b) = state b"
  "positionId (logStatus ts m b) = positionId b"
  "config (logStatus ts m b) = config b"
  "monitoringInterval (logStatus ts m b) = monitoringInterval b"
  "onRebalance (logStatus ts m b) = onRebalance b"
  by (simp_all add: logStatus_def)

lemma logError_frame [simp]:
  "positionId (logError ts m b) = positionId b"
  "config (logError ts m b) = config b"
  "monitoringInterval (logError ts m b) = monitoringInterval b"
  "onRebalance (logError ts m b) = onRebalance b"
  "isRunning (state (logError ts m b)) = isRunning (state b)"
  "lastRebalanceTime (state (logError ts m b)) = lastRebalanceTime (state b)"
  "rebalanceCount (state (logError ts m b)) = rebalanceCount (state b)"
  "totalGasSpent (state (logError ts m b)) = totalGasSpent (state b)"
  by (simp_all add: logError_def Let_def)

lemma errors_logError:
  "errors (state (logError ts m b)) =
     (if length (errors (state b)) \<ge> 100
      then tl (errors (state b)) @ [''['' @ ts @ ''] ERROR: '' @ m]
      else errors (state b) @ [''['' @ ts @ ''] ERROR: '' @ m])"
  by (cases "errors (state b)") (auto simp add: logError_def Let_def)

lemma length_errors_logError:
  "length (errors (state b)) \<le> 100 \<Longrightarrow> length (errors (state (logError ts m b))) \<le> 100"
  by (auto simp add: errors_logError)

lemma notify_frame [simp]:
  "state (notify_rebalance r b) = state b"
  "positionId (notify_rebalance r b) = positionId b"
  "config (notify_rebalance r b) = config b"
  "monitoringInterval (notify_rebalance r b) = monitoringInterval b"
  "onStatusUpdate (notify_rebalance r b) = onStatusUpdate b"
  by (simp_all add: notify_rebalance_def)

lemma tally_errors [simp]: "errors (state (fst (tally_success now r b))) = errors (state b)"
  by (auto simp add: tally_success_def Let_def split: sum.splits)

lemma tally_frame [simp]:
  "positionId (fst (tally_success now r b)) = positionId b"
  "config (fst (tally_success now r b)) = config b"
  "monitoringInterval (fst (tally_success now r b)) = monitoringInterval b"
  "onRebalance (fst (tally_success now r b)) = onRebalance b"
  "onStatusUpdate (fst (tally_success now r b)) = onStatusUpdate b"
  "isRunning (state (fst (tally_success now r b))) = isRunning (state b)"
  by (auto simp add: tally_success_def Let_def split: sum.splits)

section \<open>The error log\<close>

lemma length_errors_executeRebalance:
  assumes "length (errors (state b)) \<le> 100"
  shows "length (errors (state (executeRebalance svc ts now b))) \<le> 100"
proof -
  have t: "\<And>r b2 x. tally_success now r (logStatus ts ''Executing rebalance...'' b) = (b2, x)
             \<Longrightarrow> length (errors (state b2)) \<le> 100"
  proof -
    fix r b2 x
    assume "tally_success now r (logStatus ts ''Executing rebalance...'' b) = (b2, x)"
    then have "b2 = fst (tally_success now r (logStatus ts ''Executing rebalance...'' b))" by simp
    then show "length (errors (state b2)) \<le> 100" using assms by simp
  qed
  show ?thesis
    using assms
    by (auto simp add: executeRebalance_def Let_def length_errors_logError
        split: sum.splits prod.splits option.splits dest: t)
qed

lemma length_errors_checkAndRebalance:
  "length (errors (state b)) \<le> 100 \<Longrightarrow>
     length (errors (state (checkAndRebalance svc ts now now' b))) \<le> 100"
  by (auto simp add: checkAndRebalance_def Let_def length_errors_logError
      length_errors_executeRebalance split: sum.splits option.splits)

lemma errors_triggerRebalance:
  "errors (state (fst (triggerRebalance svc ts now b))) = errors (state b)"
proof -
  have t: "\<And>r b2 x. tally_success now r (logStatus ts ''Manual rebalance triggered'' b) = (b2, x)
             \<Longrightarrow> errors (state b2) = errors (state b)"
  proof -
    fix r b2 x
    assume "tally_success now r (logStatus ts ''Manual rebalance triggered'' b) = (b2, x)"
    then have "b2 = fst (tally_success now r (logStatus ts ''Manual rebalance triggered'' b))" by simp
    then show "errors (state b2) = errors (state b)" by simp
  qed
  show ?thesis
    by (auto simp add: triggerRebalance_def Let_def split: sum.splits prod.splits option.splits dest: t)
qed

lemma state_checkRebalanceNeeded: "fst (checkRebalanceNeeded svc now now' b) = b"
  by (auto simp add: checkRebalanceNeeded_def Let_def split: sum.splits option.splits)

lemma length_errors_apply_op:
  "length (errors (state b)) \<le> 100 \<Longrightarrow> length (errors (state (apply_op b x))) \<le> 100"
proof (cases x)
  case (Start svc ts now now' pid ms)
  then show "length (errors (state b)) \<le> 100 \<Longrightarrow> ?thesis"
    by (auto simp add: startMonitoring_def Let_def split: sum.splits
        intro!: length_errors_checkAndRebalance)
next
  case (Stop ts)
  then show "length (errors (state b)) \<le> 100 \<Longrightarrow> ?thesis"
    by (simp add: stopMonitoring_def Let_def)
next
  case (Cycle svc ts now now')
  then show "length (errors (state b)) \<le> 100 \<Longrightarrow> ?thesis"
    by (simp add: length_errors_checkAndRebalance)
next
  case (Trigger svc ts now)
  then show "length (errors (state b)) \<le> 100 \<Longrightarrow> ?thesis"
    by (simp add: errors_triggerRebalance)
next
  case (Update ts u)
  then show "length (errors (state b)) \<le> 100 \<Longrightarrow> ?thesis"
    by (simp add: updateConfig_def)
next
  case (Check svc now now')
  then show "length (errors (state b)) \<le> 100 \<Longrightarrow> ?thesis"
    by (simp add: state_checkRebalanceNeeded)
qed

lemma length_errors_run:
  "length (errors (state b)) \<le> 100 \<Longrightarrow> length (errors (state (run b ops))) \<le> 100"
  unfolding run_def
  by (induction ops arbitrary: b) (simp_all add: length_errors_apply_op)


text \<open>
  Claim C9. From construction on, whatever operations run, the error log holds at most
  100 entries. \<open>logError\<close> puts the new line last; a log below capacity keeps all its
  entries, and a full log loses exactly its first, oldest entry: the log after the call
  is the last 100 entries of the old log followed by the new line.
\<close>

theorem error_log_capacity:
  "length (errors (state (run (BotService_new cfg withStatus withRebalance) ops))) \<le> 100
   \<and> (length (errors (state b)) \<le> 100 \<longrightarrow>
        length (errors (state (logError ts m b))) \<le> 100
        \<and> last (errors (state (logError ts m b))) = ''['' @ ts @ ''] ERROR: '' @ m
        \<and> errors (state (logError ts m b)) =
            drop (length (errors (state b)) + 1 - 100)
              (errors (state b) @ [''['' @ ts @ ''] ERROR: '' @ m]))
   \<and> (length (errors (state b)) = 100 \<longrightarrow>
        errors (state (logError ts m b)) = tl (errors (state b)) @ [''['' @ ts @ ''] ERROR: '' @ m])"
proof (intro conjI impI)
  show "length (errors (state (run (BotService_new cfg withStatus withRebalance) ops))) \<le> 100"
    by (rule length_errors_run) (simp add: BotService_new_def)
next
  assume "length (errors (state b)) \<le> 100"
  then show "length (errors (state (logError ts m b))) \<le> 100"
    by (rule length_errors_logError)
next
  show "last (errors (state (logError ts m b))) = ''['' @ ts @ ''] ERROR: '' @ m"
    by (simp add: errors_logError)
next
  assume le: "length (errors (state b)) \<le> 100"
  show "errors (state (logError ts m b)) =
          drop (length (errors (state b)) + 1 - 100)
            (errors (state b) @ [''['' @ ts @ ''] ERROR: '' @ m])"
  proof (cases "length (errors (state b)) = 100")
    case True
    then have "errors (state b) \<noteq> []" by auto
    then show ?thesis using True
      by (cases "errors (state b)") (simp_all add: errors_logError)
  next
    case False
    with le have "length (errors (state b)) < 100" by simp
    then show ?thesis by (simp add: errors_logError)
  qed
next
  assume "length (errors (state b)) = 100"
  then show "errors (state (logError ts m b)) = tl (errors (state b)) @ [''['' @ ts @ ''] ERROR: '' @ m]"
    by (simp add: errors_logError)
qed

theorem error_log_capacity_witness:
  "length (errors (state bot_full_log)) = 100
   \<and> errors (state (logError ''t'' ''boom'' bot_full_log)) = replicate 99 ''old'' @ [''[t] ERROR: boom'']
   \<and> length (errors (state (run (BotService_new default_config True True)
                [Cycle svc_new_id ''t'' 0 0]))) \<le> 100"
  using error_log_capacity [of default_config True True "[Cycle svc_new_id ''t'' 0 0]"
      bot_full_log "''t''" "''boom''"]
  by (simp add: bot_full_log_def bot_monitoring_def)

lemma add_gas_0_100: "add_gas ''0'' ''100'' = Inr ''100''"
  by code_simp

section \<open>Stopping\<close>

text \<open>
  Claim C10. \<open>stopMonitoring\<close> clears the running flag and the timer and emits a status
  line; the position id, the configuration, the counters, the last rebalance time and
  the error log are as before. \<open>getPositionId\<close> still returns the monitored id, and
  \<open>triggerRebalance\<close> on the stopped bot resolves or rejects exactly as on the running
  one: with a monitored position it calls \<open>rebalancePosition\<close> for that id.
\<close>

theorem stopMonitoring_frame:
  "positionId (stopMonitoring ts b) = positionId b
   \<and> config (stopMonitoring ts b) = config b
   \<and> rebalanceCount (state (stopMonitoring ts b)) = rebalanceCount (state b)
   \<and> totalGasSpent (state (stopMonitoring ts b)) = totalGasSpent (state b)
   \<and> lastRebalanceTime (state (stopMonitoring ts b)) = lastRebalanceTime (state b)
   \<and> errors (state (stopMonitoring ts b)) = errors (state b)
   \<and> onRebalance (stopMonitoring ts b) = onRebalance b
   \<and> isRunning (state (stopMonitoring ts b)) = False
   \<and> monitoringInterval (stopMonitoring ts b) = None
   \<and> getPositionId (stopMonitoring ts b) = getPositionId b
   \<and> snd (triggerRebalance svc ts' now (stopMonitoring ts b)) = snd (triggerRebalance svc ts' now b)
   \<and> (truthy_str (positionId b) \<longrightarrow>
        snd (triggerRebalance svc ts' now (stopMonitoring ts b)) =
          (case rebalancePosition svc (the (positionId b)) (config b) of
             Inl e \<Rightarrow> Inl e
           | Inr result \<Rightarrow>
               if success result \<and> truthy_str (gasCost result)
               then (case add_gas (totalGasSpent (state b)) (the (gasCost result)) of
                       Inl e \<Rightarrow> Inl e | Inr spent \<Rightarrow> Inr result)
               else Inr result))"
  by (auto simp add: stopMonitoring_def getPositionId_def triggerRebalance_def Let_def
      tally_success_def split: sum.splits prod.splits option.splits)


theorem stopMonitoring_frame_witness:
  "truthy_str (positionId bot_monitoring)
   \<and> isRunning (state bot_monitoring)
   \<and> isRunning (state (stopMonitoring ''t1'' bot_monitoring)) = False
   \<and> getPositionId (stopMonitoring ''t1'' bot_monitoring) = Some ''pos-1''
   \<and> snd (triggerRebalance svc_new_id ''t2'' 5000 (stopMonitoring ''t1'' bot_monitoring))
       = Inr result_new_id"
proof -
  have p: "truthy_str (positionId bot_monitoring)" "positionId bot_monitoring = Some ''pos-1''"
    "isRunning (state bot_monitoring)" "config bot_monitoring = default_config"
    "totalGasSpent (state bot_monitoring) = ''0''"
    by (simp_all add: bot_monitoring_def BotService_new_def)
  note f = stopMonitoring_frame [of "''t1''" bot_monitoring svc_new_id "''t2''" 5000]
  have g: "getPositionId (stopMonitoring ''t1'' bot_monitoring) = getPositionId bot_monitoring"
    using f by blast
  have r: "isRunning (state (stopMonitoring ''t1'' bot_monitoring)) = False"
    using f by blast
  have "snd (triggerRebalance svc_new_id ''t2'' 5000 (stopMonitoring ''t1'' bot_monitoring)) =
          (case rebalancePosition svc_new_id (the (positionId bot_monitoring)) (config bot_monitoring) of
             Inl e \<Rightarrow> Inl e
           | Inr result \<Rightarrow>
               if success result \<and> truthy_str (gasCost result)
               then (case add_gas (totalGasSpent (state bot_monitoring)) (the (gasCost result)) of
                       Inl e \<Rightarrow> Inl e | Inr spent \<Rightarrow> Inr result)
               else Inr result)"
    using f p(1) by blast
  then have t: "snd (triggerRebalance svc_new_id ''t2'' 5000 (stopMonitoring ''t1'' bot_monitoring))
                  = Inr result_new_id"
    by (simp add: p svc_new_id_def result_new_id_def add_gas_0_100)
  show ?thesis
    using g r t p by (simp add: getPositionId_def)
qed

section \<open>Failed executions\<close>

lemma rebalancePosition_impl_fails: "\<not> success (rebalancePosition_impl cs pid cfg)"
  by (simp add: rebalancePosition_impl_def failure_def caught_def getSigner_def split_beta
      split: option.splits sum.splits)




section \<open>The monitored position after a rebalance\<close>

lemma triggerRebalance_positionId:
  "positionId (fst (triggerRebalance svc ts now b)) = positionId b"
proof -
  have t: "\<And>r b2 x. tally_success now r (logStatus ts ''Manual rebalance triggered'' b) = (b2, x)
             \<Longrightarrow> positionId b2 = positionId b"
  proof -
    fix r b2 x
    assume "tally_success now r (logStatus ts ''Manual rebalance triggered'' b) = (b2, x)"
    then have "b2 = fst (tally_success now r (logStatus ts ''Manual rebalance triggered'' b))" by simp
    then show "positionId b2 = positionId b" by simp
  qed
  show ?thesis
    by (auto simp add: triggerRebalance_def Let_def split: sum.splits prod.splits option.splits dest: t)
qed

text \<open>
  The scheduled path adopts a new position id whenever the gas cost, if any, converts;
  when \<open>BigInt\<close> throws on it, the id stays (the count and the time are already updated).
\<close>

lemma executeRebalance_adopts_new_id:
  assumes "truthy_str (positionId b)"
    and "rebalancePosition svc (the (positionId b)) (config b) = Inr result"
    and "success result"
    and "truthy_str (newPositionId result)"
    and "\<not> truthy_str (gasCost result)
         \<or> (\<exists>spent. add_gas (totalGasSpent (state b)) (the (gasCost result)) = Inr spent)"
  shows "positionId (executeRebalance svc ts now b) = newPositionId result"
  using assms
  by (auto simp add: executeRebalance_def tally_success_def Let_def notify_rebalance_def
      split: sum.splits)

lemma executeRebalance_gas_unparsed:
  assumes "truthy_str (positionId b)"
    and "rebalancePosition svc (the (positionId b)) (config b) = Inr result"
    and "success result"
    and "truthy_str (gasCost result)"
    and "add_gas (totalGasSpent (state b)) (the (gasCost result)) = Inl e"
  shows "positionId (executeRebalance svc ts now b) = positionId b"
  using assms
  by (auto simp add: executeRebalance_def tally_success_def Let_def notify_rebalance_def
      split: sum.splits)

text \<open>
  Claim C1. On a successful result that carries the new position id \<open>pos-2\<close>,
  \<open>triggerRebalance\<close> returns that result and still monitors \<open>pos-1\<close>, while
  \<open>executeRebalance\<close> on the same bot and result moves on to \<open>pos-2\<close>.
\<close>

theorem triggerRebalance_keeps_old_position_id:
  "success result_new_id
   \<and> newPositionId result_new_id = Some ''pos-2''
   \<and> positionId bot_monitoring = Some ''pos-1''
   \<and> snd (triggerRebalance svc_new_id ''t'' 5000 bot_monitoring) = Inr result_new_id
   \<and> positionId (fst (triggerRebalance svc_new_id ''t'' 5000 bot_monitoring)) = Some ''pos-1''
   \<and> positionId (executeRebalance svc_new_id ''t'' 5000 bot_monitoring) = Some ''pos-2''"
  by (simp add: triggerRebalance_def executeRebalance_def tally_success_def Let_def
      svc_new_id_def result_new_id_def bot_monitoring_def BotService_new_def add_gas_0_100
      logStatus_def notify_rebalance_def)

section \<open>Updating the configuration\<close>

text \<open>
  Claim C8, as stated, fails: an update carrying the slippage tolerance \<open>-5\<close> is
  accepted and becomes the live value.
\<close>

theorem updateConfig_accepts_negative_slippage:
  "slippageTolerance_opt update_negative_slippage = Some (- 5)
   \<and> \<not> (0 :: rat) < - 5
   \<and> slippageTolerance (config (updateConfig ''t'' update_negative_slippage bot_monitoring)) = - 5
   \<and> config (updateConfig ''t'' update_negative_slippage bot_monitoring) \<noteq> config bot_monitoring"
  by (simp add: updateConfig_def spread_def update_negative_slippage_def bot_monitoring_def
      BotService_new_def default_config_def logStatus_def)

text \<open>
  Claim C8, amended. \<open>updateConfig\<close> merges without validating: every field the update
  carries replaces the live value, whatever it is, every other field keeps its value,
  and nothing but the configuration (and the status stream) changes.
\<close>

theorem updateConfig_merges_unvalidated:
  "config (updateConfig ts u b) = spread (config b) u
   \<and> slippageTolerance (config (updateConfig ts u b)) =
       (case slippageTolerance_opt u of None \<Rightarrow> slippageTolerance (config b) | Some v \<Rightarrow> v)
   \<and> rangeWidthPercent (config (updateConfig ts u b)) =
       (case rangeWidthPercent_opt u of None \<Rightarrow> rangeWidthPercent (config b) | Some v \<Rightarrow> v)
   \<and> minRebalanceInterval (config (updateConfig ts u b)) =
       (case minRebalanceInterval_opt u of None \<Rightarrow> minRebalanceInterval (config b) | Some v \<Rightarrow> v)
   \<and> gasBudget (config (updateConfig ts u b)) =
       (case gasBudget_opt u of None \<Rightarrow> gasBudget (config b) | Some v \<Rightarrow> v)
   \<and> autoRebalance (config (updateConfig ts u b)) =
       (case autoRebalance_opt u of None \<Rightarrow> autoRebalance (config b) | Some v \<Rightarrow> v)
   \<and> state (updateConfig ts u b) = state b
   \<and> positionId (updateConfig ts u b) = positionId b
   \<and> monitoringInterval (updateConfig ts u b) = monitoringInterval b"
  by (simp add: updateConfig_def spread_def)

section \<open>The rebalance decision\<close>

text \<open>
  Every state reached from the constructor has \<open>lastRebalanceTime\<close> unset or nonzero,
  as long as the clock never reads the epoch itself when a rebalance succeeds.
\<close>

lemma lastRebalanceTime_tally:
  "lastRebalanceTime (state (fst (tally_success now r b))) = Some now"
  by (auto simp add: tally_success_def Let_def split: sum.splits)

lemma lastRebalanceTime_executeRebalance:
  "lastRebalanceTime (state (executeRebalance svc ts now b)) = lastRebalanceTime (state b)
   \<or> lastRebalanceTime (state (executeRebalance svc ts now b)) = Some now"
proof -
  have t: "\<And>r b2 x. tally_success now r (logStatus ts ''Executing rebalance...'' b) = (b2, x)
             \<Longrightarrow> lastRebalanceTime (state b2) = Some now"
  proof -
    fix r b2 x
    assume "tally_success now r (logStatus ts ''Executing rebalance...'' b) = (b2, x)"
    then have "b2 = fst (tally_success now r (logStatus ts ''Executing rebalance...'' b))" by simp
    then show "lastRebalanceTime (state b2) = Some now" by (simp add: lastRebalanceTime_tally)
  qed
  show ?thesis
    by (auto simp add: executeRebalance_def Let_def
        split: sum.splits prod.splits option.splits dest: t)
qed

lemma lastRebalanceTime_checkAndRebalance:
  "lastRebalanceTime (state (checkAndRebalance svc ts now now' b)) = lastRebalanceTime (state b)
   \<or> lastRebalanceTime (state (checkAndRebalance svc ts now now' b)) = Some now'"
proof -
  have e: "\<And>m. lastRebalanceTime (state (executeRebalance svc ts now' (logStatus ts m b)))
                 = lastRebalanceTime (state b)
             \<or> lastRebalanceTime (state (executeRebalance svc ts now' (logStatus ts m b)))
                 = Some now'"
  proof -
    fix m
    show "lastRebalanceTime (state (executeRebalance svc ts now' (logStatus ts m b)))
                 = lastRebalanceTime (state b)
             \<or> lastRebalanceTime (state (executeRebalance svc ts now' (logStatus ts m b)))
                 = Some now'"
      using lastRebalanceTime_executeRebalance [of svc ts now' "logStatus ts m b"] by simp
  qed
  show ?thesis
    unfolding checkAndRebalance_def Let_def
    by (simp split: sum.splits option.splits) (use e in blast)
qed

lemma lastRebalanceTime_triggerRebalance:
  "lastRebalanceTime (state (fst (triggerRebalance svc ts now b))) = lastRebalanceTime (state b)
   \<or> lastRebalanceTime (state (fst (triggerRebalance svc ts now b))) = Some now"
proof -
  have t: "\<And>r b2 x. tally_success now r (logStatus ts ''Manual rebalance triggered'' b) = (b2, x)
             \<Longrightarrow> lastRebalanceTime (state b2) = Some now"
  proof -
    fix r b2 x
    assume "tally_success now r (logStatus ts ''Manual rebalance triggered'' b) = (b2, x)"
    then have "b2 = fst (tally_success now r (logStatus ts ''Manual rebalance triggered'' b))" by simp
    then show "lastRebalanceTime (state b2) = Some now" by (simp add: lastRebalanceTime_tally)
  qed
  show ?thesis
    by (auto simp add: triggerRebalance_def Let_def
        split: sum.splits prod.splits option.splits dest: t)
qed

lemma lastRebalanceTime_apply_op:
  assumes "clock_nonzero x" and "lastRebalanceTime (state b) \<noteq> Some 0"
  shows "lastRebalanceTime (state (apply_op b x)) \<noteq> Some 0"
proof (cases x)
  case (Start svc ts now now' pid ms)
  let ?b2 = "logStatus ts (''Bot started monitoring position: '' @ pid)
               (b\<lparr> positionId := Some pid, state := (state b)\<lparr> isRunning := True \<rparr> \<rparr>)"
  have "lastRebalanceTime (state ?b2) \<noteq> Some 0" using assms(2) by simp
  moreover have "now' \<noteq> 0" using assms(1) Start by simp
  ultimately have "lastRebalanceTime (state (checkAndRebalance svc ts now now' ?b2)) \<noteq> Some 0"
    using lastRebalanceTime_checkAndRebalance [of svc ts now now' ?b2] by auto
  then show ?thesis using Start assms(2)
    by (simp add: startMonitoring_def Let_def)
next
  case (Stop ts)
  then show ?thesis using assms(2) by (simp add: stopMonitoring_def Let_def)
next
  case (Cycle svc ts now now')
  then show ?thesis
    using assms lastRebalanceTime_checkAndRebalance [of svc ts now now' b] by auto
next
  case (Trigger svc ts now)
  then show ?thesis
    using assms lastRebalanceTime_triggerRebalance [of svc ts now b] by auto
next
  case (Update ts u)
  then show ?thesis using assms(2) by (simp add: updateConfig_def)
next
  case (Check svc now now')
  have "fst (checkRebalanceNeeded svc now now' b) = b"
    by (auto simp add: checkRebalanceNeeded_def Let_def split: sum.splits option.splits)
  then show ?thesis using Check assms(2) by simp
qed

lemma lastRebalanceTime_run:
  "\<forall>x \<in> set ops. clock_nonzero x \<Longrightarrow> lastRebalanceTime (state b) \<noteq> Some 0
     \<Longrightarrow> lastRebalanceTime (state (run b ops)) \<noteq> Some 0"
  unfolding run_def
  by (induction ops arbitrary: b) (simp_all add: lastRebalanceTime_apply_op)

lemma lastRebalanceTime_reachable:
  "\<forall>x \<in> set ops. clock_nonzero x
     \<Longrightarrow> lastRebalanceTime (state (run (BotService_new cfg withStatus withRebalance) ops)) \<noteq> Some 0"
  by (rule lastRebalanceTime_run) (simp_all add: BotService_new_def)





section \<open>The new tick range\<close>

















section \<open>Token amounts\<close>

lemma floor_half_close: "\<bar>of_int \<lfloor>(y::rat) + 1 / 2\<rfloor> - y\<bar> \<le> 1 / 2"
proof -
  have "of_int \<lfloor>y + 1 / 2\<rfloor> \<le> y + 1 / 2 \<and> y + 1 / 2 < of_int (\<lfloor>y + 1 / 2\<rfloor> + 1)"
    by (rule floor_correct)
  then have "of_int \<lfloor>y + 1 / 2\<rfloor> \<le> y + 1 / 2" and "y + 1 / 2 < of_int \<lfloor>y + 1 / 2\<rfloor> + 1"
    by simp_all
  then show ?thesis by linarith
qed

lemma round_half_up_nonneg: "0 \<le> x \<Longrightarrow> 0 \<le> round_half_up dp x"
  by (simp add: round_half_up_def)

lemma round_half_up_close: "\<bar>round_half_up dp x - x\<bar> \<le> 1 / (2 * 10 ^ dp)"
proof -
  have pos: "(0::rat) < 10 ^ dp" by simp
  have scale: "\<And>(n::int) (y::rat). \<bar>of_int n - y * 10 ^ dp\<bar> \<le> 1 / 2
                 \<Longrightarrow> \<bar>of_int n / 10 ^ dp - y\<bar> \<le> 1 / (2 * 10 ^ dp)"
  proof -
    fix n :: int and y :: rat
    assume a: "\<bar>of_int n - y * 10 ^ dp\<bar> \<le> 1 / 2"
    have "of_int n / 10 ^ dp - y = (of_int n - y * 10 ^ dp) / 10 ^ dp"
      using pos by (simp add: field_simps)
    then have "\<bar>of_int n / 10 ^ dp - y\<bar> = \<bar>of_int n - y * 10 ^ dp\<bar> / 10 ^ dp"
      using pos by (simp add: abs_divide)
    also have "\<dots> \<le> (1 / 2) / 10 ^ dp"
      by (rule divide_right_mono) (use a pos in simp_all)
    finally show "\<bar>of_int n / 10 ^ dp - y\<bar> \<le> 1 / (2 * 10 ^ dp)" by simp
  qed
  show ?thesis
  proof (cases "x < 0")
    case True
    have "\<bar>of_int \<lfloor>(- x) * 10 ^ dp + 1 / 2\<rfloor> / 10 ^ dp - (- x)\<bar> \<le> 1 / (2 * 10 ^ dp)"
      by (rule scale) (rule floor_half_close)
    then show ?thesis using True by (simp add: round_half_up_def abs_minus_commute)
  next
    case False
    have "\<bar>of_int \<lfloor>x * 10 ^ dp + 1 / 2\<rfloor> / 10 ^ dp - x\<bar> \<le> 1 / (2 * 10 ^ dp)"
      by (rule scale) (rule floor_half_close)
    then show ?thesis using False by (simp add: round_half_up_def)
  qed
qed

text \<open>
  Claim C3, as stated, fails: for liquidity 1 and square-root prices 1 (current), 2 and 3
  the amount of token A is 0.16666666666666666667, the quotient 1/6 rounded to 20
  decimal places, not the truncated integer 0.
\<close>

theorem calculateTokenAmounts_not_truncating:
  "(0::rat) \<le> 1 \<and> (0::rat) < 2 \<and> (2::rat) < 3
   \<and> calculateTokenAmounts 1 1 2 3
       = (Finite (16666666666666666667 / 100000000000000000000), Finite 0)
   \<and> (0::rat) < 16666666666666666667 / 100000000000000000000
   \<and> (16666666666666666667 / 100000000000000000000 :: rat) < 1
   \<and> (1 * (3 - 2)) div (3 * 2) = (0::int)"
proof -
  have "calculateTokenAmounts 1 1 2 3
       = (Finite (16666666666666666667 / 100000000000000000000), Finite 0)"
    by code_simp
  then show ?thesis by simp
qed

text \<open>
  Claim C3, amended. For non-negative liquidity and positive square-root prices with
  \<open>lower < upper\<close> the three cases are those of the claim, with the quotient for token A
  rounded to 20 decimal places, halves away from zero, and the product for token B
  exact. Both amounts are finite and non-negative; a rounded quotient is a multiple of
  \<open>1/10^20\<close> within \<open>1/(2 * 10^20)\<close> of the exact one.
\<close>

theorem calculateTokenAmounts_cases:
  assumes "0 \<le> L" and "0 < cur" and "0 < lo" and "lo < hi"
  shows "(cur < lo \<longrightarrow>
            calculateTokenAmounts L cur lo hi =
              (Finite (round_half_up 20 (L * (hi - lo) / (hi * lo))), Finite 0))
   \<and> (hi < cur \<longrightarrow>
            calculateTokenAmounts L cur lo hi = (Finite 0, Finite (L * (hi - lo))))
   \<and> (lo \<le> cur \<and> cur \<le> hi \<longrightarrow>
            calculateTokenAmounts L cur lo hi =
              (Finite (round_half_up 20 (L * (hi - cur) / (hi * cur))), Finite (L * (cur - lo))))
   \<and> (\<exists>a b. calculateTokenAmounts L cur lo hi = (Finite a, Finite b) \<and> 0 \<le> a \<and> 0 \<le> b)
   \<and> \<bar>round_half_up 20 q - q\<bar> \<le> 1 / (2 * 10 ^ 20)
   \<and> (\<exists>n. round_half_up 20 q = of_int n / 10 ^ 20)"
proof -
  have d1: "hi * lo \<noteq> 0" and d2: "hi * cur \<noteq> 0" using assms by auto
  have q1: "0 \<le> L * (hi - lo) / (hi * lo)" using assms by simp
  have c1: "cur < lo \<Longrightarrow> calculateTokenAmounts L cur lo hi =
              (Finite (round_half_up 20 (L * (hi - lo) / (hi * lo))), Finite 0)"
    using d1 by (simp add: calculateTokenAmounts_def bn_div_def)
  have c2: "hi < cur \<Longrightarrow> calculateTokenAmounts L cur lo hi = (Finite 0, Finite (L * (hi - lo)))"
    using assms by (simp add: calculateTokenAmounts_def)
  have c3: "lo \<le> cur \<Longrightarrow> cur \<le> hi \<Longrightarrow> calculateTokenAmounts L cur lo hi =
              (Finite (round_half_up 20 (L * (hi - cur) / (hi * cur))), Finite (L * (cur - lo)))"
    using d2 by (simp add: calculateTokenAmounts_def bn_div_def)
  have nn: "\<exists>a b. calculateTokenAmounts L cur lo hi = (Finite a, Finite b) \<and> 0 \<le> a \<and> 0 \<le> b"
  proof -
    consider "cur < lo" | "hi < cur" | "lo \<le> cur" "cur \<le> hi" by linarith
    then show ?thesis
    proof cases
      case 1
      then show ?thesis using c1 q1 round_half_up_nonneg by simp
    next
      case 2
      then show ?thesis using c2 assms by simp
    next
      case 3
      have "0 \<le> L * (hi - cur) / (hi * cur)" using assms 3 by simp
      then show ?thesis using c3 3 assms round_half_up_nonneg by simp
    qed
  qed
  have grid: "\<exists>n. round_half_up 20 q = of_int n / 10 ^ 20"
  proof (cases "q < 0")
    case True
    then have "round_half_up 20 q = of_int (- \<lfloor>(- q) * 10 ^ 20 + 1 / 2\<rfloor>) / 10 ^ 20"
      by (simp add: round_half_up_def)
    then show ?thesis by blast
  next
    case False
    then have "round_half_up 20 q = of_int \<lfloor>q * 10 ^ 20 + 1 / 2\<rfloor> / 10 ^ 20"
      by (simp add: round_half_up_def)
    then show ?thesis by blast
  qed
  show ?thesis
    using c1 c2 c3 nn grid round_half_up_close [of 20 q] by blast
qed

theorem calculateTokenAmounts_cases_witness:
  "(0::rat) \<le> 1000 \<and> (0::rat) < 5 \<and> (0::rat) < 4 \<and> (4::rat) < 8
   \<and> calculateTokenAmounts 1000 5 4 8 = (Finite 75, Finite 1000)"
proof -
  have h: "(0::rat) \<le> 1000" "(0::rat) < 5" "(0::rat) < 4" "(4::rat) < 8" by simp_all
  have r: "round_half_up 20 (1000 * (8 - 5) / (8 * 5)) = 75" by code_simp
  have "calculateTokenAmounts 1000 5 4 8 =
          (Finite (round_half_up 20 (1000 * (8 - 5) / (8 * 5))), Finite (1000 * (5 - 4)))"
    using calculateTokenAmounts_cases [OF h] by simp
  then show ?thesis using h r by simp
qed

section \<open>Minimum amounts\<close>





end
